theory Spec2Isabelle
  imports Main
begin

section \<open>The echozap request-logging middleware (logger.go)\<close>

text \<open>
  The package is one decorator over an echo handler. Everything it touches besides its own
  control flow belongs to a collaborator: the echo context (request, response, error hook),
  the clock, and the zap logger. The model keeps the collaborators' state in a record
  \<open>world\<close> that the downstream handler, the skipper and the error hook may change, and
  records the calls the decorator itself makes, in order, in a list of events.
\<close>

subsection \<open>Data\<close>

text \<open>A Go \<open>error\<close> is an interface value; \<open>nil\<close> is \<open>None\<close> of \<open>goerror option\<close>.\<close>

datatype goerror = GoError string

text \<open>
  \<open>http.Header\<close> is a \<open>map[string][]string\<close>. \<open>Header.Get\<close> returns the first value
  stored under the key, and the empty string when the key is absent or has no value. (The
  library canonicalises the key first; the only key read here, \<open>X-Request-Id\<close>, and
  \<open>User-Agent\<close> are already canonical.)
\<close>

type_synonym header = "string \<rightharpoonup> string list"

definition Header_Get :: "header \<Rightarrow> string \<Rightarrow> string" where
  "Header_Get h key = (case h key of None \<Rightarrow> [] | Some [] \<Rightarrow> [] | Some (v # _) \<Rightarrow> v)"

definition HeaderXRequestID :: string where
  "HeaderXRequestID = ''X-Request-Id''"

text \<open>
  The fields of \<open>*http.Request\<close> and \<open>*echo.Response\<close> that the middleware reads.
  \<open>Status\<close> is a Go \<open>int\<close> and \<open>Size\<close> an \<open>int64\<close>; both are only compared and copied,
  never computed with, so they are integers here. \<open>res.Header()\<close> is \<open>ResHeader\<close>. The
  middleware never reads \<open>Committed\<close>; the framework's error handler does.
\<close>

record request =
  Method :: string
  RequestURI :: string
  Host :: string
  Header :: header

record response =
  Status :: int
  Size :: int
  ResHeader :: header
  Committed :: bool

definition UserAgent :: "request \<Rightarrow> string" where
  "UserAgent req = Header_Get (Header req) ''User-Agent''"

text \<open>
  What a handler can observe and change: the request and response behind the
  \<open>echo.Context\<close>, the value \<open>c.RealIP()\<close> returns, and the clock in nanoseconds.
\<close>

record world =
  Request :: request
  Response :: response
  RealIP :: string
  clock :: int

text \<open>
  \<open>echo.HandlerFunc\<close> is \<open>func(c echo.Context) error\<close>: it returns an error or nil and
  leaves the world changed. A \<open>Skipper\<close> is \<open>func(c echo.Context) bool\<close>; it receives the
  same context, so it may change the world as well.
\<close>

type_synonym HandlerFunc = "world \<Rightarrow> goerror option \<times> world"

type_synonym Skipper = "world \<Rightarrow> bool \<times> world"

text \<open>\<open>ZapLoggerConfig\<close>; a nil \<open>Skipper\<close> is \<open>None\<close>.\<close>

record ZapLoggerConfig =
  Skipper :: "Skipper option"
  IncludeRequestLogMessage :: bool

text \<open>
  The library functions whose results the middleware passes on without looking at them:
  \<open>time.Duration.String\<close> and \<open>echo.Context.Error\<close> (which runs the framework's error
  handler on the context).
\<close>

record library =
  Duration_String :: "int \<Rightarrow> string"
  Context_Error :: "goerror \<Rightarrow> world \<Rightarrow> world"

text \<open>
  The zap side. A \<open>zapcore.Field\<close> is a key with a typed value. \<open>zap.String\<close>, \<open>zap.Int\<close>
  and \<open>zap.Int64\<close> build one from a key and a value; \<open>ErrorField\<close> is a field of type
  \<open>ErrorType\<close> holding a non-nil error under its key; \<open>zap_Skip\<close> is the field of
  \<open>zap.Skip()\<close>, of type \<open>SkipType\<close>, which has no key and adds nothing to an entry.
\<close>

datatype Field =
    zap_String string string
  | zap_Int string int
  | zap_Int64 string int
  | ErrorField string goerror
  | zap_Skip

text \<open>
  \<open>zap.Error(err)\<close> is the library's \<open>NamedError("error", err)\<close>, and \<open>NamedError\<close> returns
  \<open>Skip()\<close> for a nil error: only a non-nil error gives a field keyed \<open>error\<close>.
\<close>

definition zap_NamedError :: "string \<Rightarrow> goerror option \<Rightarrow> Field" where
  "zap_NamedError key err = (case err of None \<Rightarrow> zap_Skip | Some e \<Rightarrow> ErrorField key e)"

definition zap_Error :: "goerror option \<Rightarrow> Field" where
  "zap_Error err = zap_NamedError ''error'' err"

datatype Level = InfoLevel | WarnLevel | ErrorLevel

datatype zap_Logger = Logger string

text \<open>One emission: the logger, the fields attached by \<open>With\<close>, the level of the method
  called (\<open>Info\<close>, \<open>Warn\<close>, \<open>Error\<close>), the message and the fields passed.\<close>

record entry =
  logger :: zap_Logger
  attached :: "Field list"
  level :: Level
  message :: string
  passed :: "Field list"

text \<open>The calls the decorated handler makes to its collaborators.\<close>

datatype event =
    Call_Skipper
  | Call_time_Now
  | Call_next
  | Call_c_Error goerror
  | Call_time_Since
  | Call_log entry

text \<open>Calling a nil function value panics; otherwise the handler returns an error or nil.\<close>

datatype outcome = Return "goerror option" | Panic

record run =
  returned :: outcome
  final :: world
  calls :: "event list"

subsection \<open>The code\<close>

text \<open>\<open>DefaultSkipper\<close> (lines 33-36) and \<open>DefaultZapLoggerConfig\<close> (lines 25-31), the
  package variable at its declared value.\<close>

definition DefaultSkipper :: Skipper where
  "DefaultSkipper c = (False, c)"

definition DefaultZapLoggerConfig :: ZapLoggerConfig where
  "DefaultZapLoggerConfig =
     \<lparr>Skipper = Some DefaultSkipper, IncludeRequestLogMessage = False\<rparr>"

text \<open>
  \<open>ZapLoggerWithConfig\<close> (lines 44-105). The outer \<open>let\<close> is the defaulting done when the
  middleware is applied to \<open>next\<close> (lines 47-49); the function of \<open>c\<close> is the handler of
  lines 51-103. \<open>fmt.Sprintf("%s %s", a, b)\<close> on two strings is \<open>a\<close>, a space, \<open>b\<close>.
\<close>

definition ZapLoggerWithConfig ::
  "library \<Rightarrow> zap_Logger \<Rightarrow> ZapLoggerConfig \<Rightarrow> HandlerFunc \<Rightarrow> world \<Rightarrow> run" where
  "ZapLoggerWithConfig lib log config0 next =
    (let config = (case Skipper config0 of
                     None \<Rightarrow> config0\<lparr>Skipper := Skipper DefaultZapLoggerConfig\<rparr>
                   | Some _ \<Rightarrow> config0)
     in (\<lambda>c.
       case Skipper config of
         None \<Rightarrow> \<lparr>returned = Panic, final = c, calls = []\<rparr>
       | Some skipper \<Rightarrow>
          (let (skip, c1) = skipper c in
           if skip then
             (let (r, c2) = next c1
              in \<lparr>returned = Return r, final = c2, calls = [Call_Skipper, Call_next]\<rparr>)
           else
             (let start = clock c1;
                  (err, c2) = next c1;
                  c3 = (case err of None \<Rightarrow> c2 | Some e \<Rightarrow> Context_Error lib e c2);
                  req = Request c3;
                  res = Response c3;
                  requestLogField = Method req @ '' '' @ RequestURI req;
                  fields0 =
                    [zap_String ''remote_ip'' (RealIP c3),
                     zap_String ''latency'' (Duration_String lib (clock c3 - start)),
                     zap_String ''host'' (Host req),
                     zap_String ''request'' requestLogField,
                     zap_Int ''status'' (Status res),
                     zap_Int64 ''size'' (Size res),
                     zap_String ''user_agent'' (UserAgent req)];
                  id0 = Header_Get (Header req) HeaderXRequestID;
                  id = (if id0 = [] then Header_Get (ResHeader res) HeaderXRequestID else id0);
                  fields = fields0 @ [zap_String ''request_id'' id];
                  requestLogMessage =
                    (if IncludeRequestLogMessage config then '': '' @ requestLogField else []);
                  n = Status res;
                  ent =
                    (if n \<ge> 500 then
                       \<lparr>logger = log, attached = [zap_Error err], level = ErrorLevel,
                        message = ''Server error'' @ requestLogMessage, passed = fields\<rparr>
                     else if n \<ge> 400 then
                       \<lparr>logger = log, attached = [zap_Error err], level = WarnLevel,
                        message = ''Client error'' @ requestLogMessage, passed = fields\<rparr>
                     else if n \<ge> 300 then
                       \<lparr>logger = log, attached = [], level = InfoLevel,
                        message = ''Redirection'' @ requestLogMessage, passed = fields\<rparr>
                     else
                       \<lparr>logger = log, attached = [], level = InfoLevel,
                        message = ''Success'' @ requestLogMessage, passed = fields\<rparr>)
              in \<lparr>returned = Return None, final = c3,
                  calls = [Call_Skipper, Call_time_Now, Call_next]
                          @ (case err of None \<Rightarrow> [] | Some e \<Rightarrow> [Call_c_Error e])
                          @ [Call_time_Since, Call_log ent]\<rparr>))))"

text \<open>\<open>ZapLogger\<close> (lines 38-41).\<close>

definition ZapLogger :: "library \<Rightarrow> zap_Logger \<Rightarrow> HandlerFunc \<Rightarrow> world \<Rightarrow> run" where
  "ZapLogger lib log = ZapLoggerWithConfig lib log DefaultZapLoggerConfig"

subsection \<open>Reading a run\<close>

text \<open>
  The skipper the handler evaluates at line 52: the configured one, or \<open>DefaultSkipper\<close>
  when the configuration came with none (lines 47-49).
\<close>

definition skipper_of :: "ZapLoggerConfig \<Rightarrow> Skipper" where
  "skipper_of config = (case Skipper config of None \<Rightarrow> DefaultSkipper | Some s \<Rightarrow> s)"

text \<open>The errors handed to \<open>c.Error\<close> and the entries emitted, in order.\<close>

fun errors_reported :: "event list \<Rightarrow> goerror list" where
  "errors_reported [] = []"
| "errors_reported (Call_c_Error e # evs) = e # errors_reported evs"
| "errors_reported (_ # evs) = errors_reported evs"

fun entries_logged :: "event list \<Rightarrow> entry list" where
  "entries_logged [] = []"
| "entries_logged (Call_log ent # evs) = ent # entries_logged evs"
| "entries_logged (_ # evs) = entries_logged evs"

text \<open>
  The keys a list of fields adds to an entry, in order (a skip field adds none), and the
  errors its error fields carry.
\<close>

fun field_keys :: "Field list \<Rightarrow> string list" where
  "field_keys [] = []"
| "field_keys (zap_String k _ # fs) = k # field_keys fs"
| "field_keys (zap_Int k _ # fs) = k # field_keys fs"
| "field_keys (zap_Int64 k _ # fs) = k # field_keys fs"
| "field_keys (ErrorField k _ # fs) = k # field_keys fs"
| "field_keys (zap_Skip # fs) = field_keys fs"

fun error_fields :: "Field list \<Rightarrow> goerror list" where
  "error_fields [] = []"
| "error_fields (ErrorField _ e # fs) = e # error_fields fs"
| "error_fields (_ # fs) = error_fields fs"

subsection \<open>The specification's classification table\<close>

text \<open>
  Written from the specification's table, not from the code: at least 500 is
  error / Server error, 400 to 499 is warning / Client error, 300 to 399 is
  info / Redirection, anything else is info / Success.
\<close>

definition spec_severity :: "int \<Rightarrow> Level" where
  "spec_severity status =
     (if status \<ge> 500 then ErrorLevel
      else if 400 \<le> status \<and> status \<le> 499 then WarnLevel
      else if 300 \<le> status \<and> status \<le> 399 then InfoLevel
      else InfoLevel)"

definition spec_base_message :: "int \<Rightarrow> string" where
  "spec_base_message status =
     (if status \<ge> 500 then ''Server error''
      else if 400 \<le> status \<and> status \<le> 499 then ''Client error''
      else if 300 \<le> status \<and> status \<le> 399 then ''Redirection''
      else ''Success'')"

subsection \<open>Concrete collaborators\<close>

text \<open>
  A library whose error hook behaves like echo's default handler as far as the status
  goes: it answers 500 unless a response has been committed. Durations print to the
  millisecond, up to two.
\<close>

definition example_library :: library where
  "example_library =
     \<lparr>Duration_String = (\<lambda>d.
        if d < 1000000 then ''0s'' else if d < 2000000 then ''1ms'' else ''2ms''),
      Context_Error = (\<lambda>e w.
        if Committed (Response w) then w
        else w\<lparr>Response := (Response w)\<lparr>Status := 500, Committed := True\<rparr>\<rparr>)\<rparr>"

text \<open>A fresh context for \<open>GET /foo\<close> with no correlation id anywhere.\<close>

definition example_world :: world where
  "example_world =
     \<lparr>Request = \<lparr>Method = ''GET'', RequestURI = ''/foo'', Host = ''example.com'',
                  Header = Map.empty\<rparr>,
      Response = \<lparr>Status = 200, Size = 0, ResHeader = Map.empty, Committed = False\<rparr>,
      RealIP = ''192.0.2.1'',
      clock = 0\<rparr>"

text \<open>The same request arriving with \<open>X-Request-Id: abc\<close>.\<close>

definition inbound_id_world :: world where
  "inbound_id_world =
     example_world\<lparr>Request := (Request example_world)
       \<lparr>Header := [''X-Request-Id'' \<mapsto> [''abc'']]\<rparr>\<rparr>"

text \<open>A context for \<open>POST /bar\<close> from another client, with a user agent.\<close>

definition post_world :: world where
  "post_world =
     \<lparr>Request = \<lparr>Method = ''POST'', RequestURI = ''/bar'', Host = ''api.example.com'',
                  Header = [''User-Agent'' \<mapsto> [''curl/8.0'']]\<rparr>,
      Response = \<lparr>Status = 200, Size = 0, ResHeader = Map.empty, Committed = False\<rparr>,
      RealIP = ''198.51.100.7'',
      clock = 5\<rparr>"

text \<open>A handler that writes a response with the given status and returns the given error.\<close>

definition respond :: "int \<Rightarrow> goerror option \<Rightarrow> HandlerFunc" where
  "respond n err c =
     (err, c\<lparr>Response := (Response c)\<lparr>Status := n, Committed := True\<rparr>\<rparr>)"

text \<open>
  A handler that takes two milliseconds to write seventeen bytes with the given status,
  and returns the given error.
\<close>

definition respond_slowly :: "int \<Rightarrow> goerror option \<Rightarrow> HandlerFunc" where
  "respond_slowly n err c =
     (err, c\<lparr>Response := (Response c)\<lparr>Status := n, Size := 17, Committed := True\<rparr>,
            clock := clock c + 2000000\<rparr>)"

text \<open>A handler that fails before writing anything.\<close>

definition failing_next :: HandlerFunc where
  "failing_next c = (Some (GoError ''boom''), c)"

text \<open>A handler that sets \<open>X-Request-Id: xyz\<close> on the response and answers 200.\<close>

definition setting_id_next :: HandlerFunc where
  "setting_id_next c =
     (None, c\<lparr>Response := (Response c)
       \<lparr>Status := 200, ResHeader := (ResHeader (Response c))(''X-Request-Id'' \<mapsto> [''xyz'']),
        Committed := True\<rparr>\<rparr>)"

definition always_skip :: Skipper where
  "always_skip c = (True, c)"

section \<open>Properties\<close>

subsection \<open>The two paths of the handler\<close>

lemmas handler_unfold =
  ZapLoggerWithConfig_def skipper_of_def DefaultZapLoggerConfig_def Let_def

lemma handler_skipped:
  assumes "skipper_of config c = (True, c1)" and "next c1 = (r, c2)"
  shows "ZapLoggerWithConfig lib log config next c =
           \<lparr>returned = Return r, final = c2, calls = [Call_Skipper, Call_next]\<rparr>"
  using assms by (simp add: handler_unfold split: option.splits)

lemma handler_logged:
  assumes "skipper_of config c = (False, c1)" and "next c1 = (err, c2)"
  shows "\<exists>ent. ZapLoggerWithConfig lib log config next c =
           \<lparr>returned = Return None,
            final = (case err of None \<Rightarrow> c2 | Some e \<Rightarrow> Context_Error lib e c2),
            calls = [Call_Skipper, Call_time_Now, Call_next]
                    @ (case err of None \<Rightarrow> [] | Some e \<Rightarrow> [Call_c_Error e])
                    @ [Call_time_Since, Call_log ent]\<rparr>"
  using assms by (simp add: handler_unfold split: option.splits)

text \<open>The concrete requests used below are not skipped by the default configuration.\<close>

lemma default_keeps: "skipper_of DefaultZapLoggerConfig c = (False, c)"
  by (simp add: skipper_of_def DefaultZapLoggerConfig_def DefaultSkipper_def)

subsection \<open>Return value and the call to next\<close>

text \<open>
  C1, as stated, fails: with the default configuration and a handler that returns the
  error \<open>boom\<close>, the decorated handler does not return what \<open>next\<close> returned.
\<close>

theorem passthrough_counterexample:
  "returned (ZapLoggerWithConfig example_library (Logger ''access'') DefaultZapLoggerConfig
       failing_next example_world)
   \<noteq> Return (fst (failing_next example_world))"
  by (simp add: handler_unfold DefaultSkipper_def failing_next_def)

text \<open>
  C1, amended. For every configuration and every handler \<open>next\<close>, the decorated handler
  calls \<open>next\<close> exactly once. On a skipped request it returns what \<open>next\<close> returned; on a
  request that is not skipped it returns nil whatever \<open>next\<close> returned, and a non-nil error
  of \<open>next\<close> is handed to \<open>c.Error\<close> right after \<open>next\<close> returns, before the entry is
  built and emitted.
\<close>

theorem next_once_result:
  assumes "skipper_of config c = (skip, c1)" and "next c1 = (err, c2)"
  shows "count_list (calls (ZapLoggerWithConfig lib log config next c)) Call_next = 1
     \<and> returned (ZapLoggerWithConfig lib log config next c)
         = Return (if skip then err else None)
     \<and> (\<exists>ent. calls (ZapLoggerWithConfig lib log config next c)
         = (if skip then [Call_Skipper, Call_next]
            else [Call_Skipper, Call_time_Now, Call_next]
                 @ (case err of None \<Rightarrow> [] | Some e \<Rightarrow> [Call_c_Error e])
                 @ [Call_time_Since, Call_log ent]))"
proof (cases skip)
  case True
  with assms show ?thesis by (simp add: handler_skipped)
next
  case False
  with assms have "skipper_of config c = (False, c1)" by simp
  from handler_logged [of config c c1 "next" err c2 lib log] this assms(2) obtain ent where
    "ZapLoggerWithConfig lib log config next c =
       \<lparr>returned = Return None,
        final = (case err of None \<Rightarrow> c2 | Some e \<Rightarrow> Context_Error lib e c2),
        calls = [Call_Skipper, Call_time_Now, Call_next]
                @ (case err of None \<Rightarrow> [] | Some e \<Rightarrow> [Call_c_Error e])
                @ [Call_time_Since, Call_log ent]\<rparr>"
    by blast
  with False show ?thesis by (auto split: option.splits)
qed

theorem next_once_result_witness:
  "returned (ZapLoggerWithConfig example_library (Logger ''access'') DefaultZapLoggerConfig
       failing_next example_world) = Return None
   \<and> count_list (calls (ZapLoggerWithConfig example_library (Logger ''access'')
       DefaultZapLoggerConfig failing_next example_world)) Call_next = 1
   \<and> returned (ZapLoggerWithConfig example_library (Logger ''access'')
       \<lparr>Skipper = Some always_skip, IncludeRequestLogMessage = False\<rparr>
       failing_next example_world) = Return (Some (GoError ''boom''))"
proof -
  have s2: "skipper_of \<lparr>Skipper = Some always_skip, IncludeRequestLogMessage = False\<rparr>
              example_world = (True, example_world)"
    by (simp add: skipper_of_def always_skip_def)
  have n: "failing_next example_world = (Some (GoError ''boom''), example_world)"
    by (simp add: failing_next_def)
  show ?thesis
    using
      next_once_result [of _ _ _ _ failing_next _ _ example_library "Logger ''access''",
        OF default_keeps n]
      next_once_result [of _ _ _ _ failing_next _ _ example_library "Logger ''access''",
        OF s2 n]
    by simp
qed

text \<open>
  C2. On a request that is not skipped, the decorated handler returns nil, and the errors
  handed to \<open>c.Error\<close> are exactly the error \<open>next\<close> returned, once, when it is non-nil, and
  none when \<open>next\<close> returned nil. The context is left as \<open>next\<close> and that one call of the
  error hook left it.
\<close>

theorem error_reported_once_returns_nil:
  assumes "skipper_of config c = (False, c1)" and "next c1 = (err, c2)"
  shows "(let r = ZapLoggerWithConfig lib log config next c
    in returned r = Return None
     \<and> errors_reported (calls r) = (case err of None \<Rightarrow> [] | Some e \<Rightarrow> [e])
     \<and> final r = (case err of None \<Rightarrow> c2 | Some e \<Rightarrow> Context_Error lib e c2))"
  using assms by (simp add: handler_unfold split: option.splits)

theorem error_reported_once_returns_nil_witness:
  "returned (ZapLoggerWithConfig example_library (Logger ''access'') DefaultZapLoggerConfig
       failing_next example_world) = Return None
   \<and> errors_reported (calls (ZapLoggerWithConfig example_library (Logger ''access'')
       DefaultZapLoggerConfig failing_next example_world)) = [GoError ''boom'']
   \<and> Status (Response (final (ZapLoggerWithConfig example_library (Logger ''access'')
       DefaultZapLoggerConfig failing_next example_world))) = 500
   \<and> errors_reported (calls (ZapLoggerWithConfig example_library (Logger ''access'')
       DefaultZapLoggerConfig (respond 200 None) example_world)) = []"
proof -
  have n1: "failing_next example_world = (Some (GoError ''boom''), example_world)"
    by (simp add: failing_next_def)
  have n2: "respond 200 None example_world = (None, snd (respond 200 None example_world))"
    by (simp add: respond_def)
  show ?thesis
    using
      error_reported_once_returns_nil [of _ _ _ failing_next _ _ example_library
        "Logger ''access''", OF default_keeps n1]
      error_reported_once_returns_nil [of _ _ _ "respond 200 None" _ _ example_library
        "Logger ''access''", OF default_keeps n2]
    by (simp add: Let_def example_library_def example_world_def)
qed

subsection \<open>The emitted entry\<close>

text \<open>
  C3. On a request that is not skipped, exactly one entry is emitted; its level and the
  base of its message are the specification's four-way function of the response status
  alone, whatever \<open>next\<close> returned: the status is read from the response as \<open>next\<close> and
  the error hook left it, and the rest of the message depends on the configuration flag
  and the request only.
\<close>

theorem severity_by_status:
  assumes "skipper_of config c = (False, c1)"
  shows "(let r = ZapLoggerWithConfig lib log config next c
    in \<exists>ent. entries_logged (calls r) = [ent]
     \<and> level ent = spec_severity (Status (Response (final r)))
     \<and> message ent = spec_base_message (Status (Response (final r)))
          @ (if IncludeRequestLogMessage config
             then '': '' @ Method (Request (final r)) @ '' '' @ RequestURI (Request (final r))
             else []))"
  using assms
  by (simp add: handler_unfold spec_severity_def spec_base_message_def
      split: option.splits prod.splits)

theorem severity_by_status_witness:
  "map level (entries_logged (calls (ZapLoggerWithConfig example_library (Logger ''access'')
       DefaultZapLoggerConfig (respond 200 None) example_world))) = [InfoLevel]
   \<and> map message (entries_logged (calls (ZapLoggerWithConfig example_library
       (Logger ''access'') DefaultZapLoggerConfig (respond 200 None) example_world)))
       = [''Success'']
   \<and> map level (entries_logged (calls (ZapLoggerWithConfig example_library (Logger ''access'')
       DefaultZapLoggerConfig (respond 301 None) example_world))) = [InfoLevel]
   \<and> map message (entries_logged (calls (ZapLoggerWithConfig example_library
       (Logger ''access'') DefaultZapLoggerConfig (respond 301 None) example_world)))
       = [''Redirection'']
   \<and> map level (entries_logged (calls (ZapLoggerWithConfig example_library (Logger ''access'')
       DefaultZapLoggerConfig (respond 404 None) example_world))) = [WarnLevel]
   \<and> map message (entries_logged (calls (ZapLoggerWithConfig example_library
       (Logger ''access'') DefaultZapLoggerConfig (respond 404 None) example_world)))
       = [''Client error'']
   \<and> map level (entries_logged (calls (ZapLoggerWithConfig example_library (Logger ''access'')
       DefaultZapLoggerConfig (respond 500 None) example_world))) = [ErrorLevel]
   \<and> map message (entries_logged (calls (ZapLoggerWithConfig example_library
       (Logger ''access'') DefaultZapLoggerConfig (respond 500 None) example_world)))
       = [''Server error'']
   \<and> map level (entries_logged (calls (ZapLoggerWithConfig example_library (Logger ''access'')
       DefaultZapLoggerConfig (respond 200 (Some (GoError ''boom''))) example_world)))
       = [InfoLevel]
   \<and> map message (entries_logged (calls (ZapLoggerWithConfig example_library
       (Logger ''access'') DefaultZapLoggerConfig (respond 200 (Some (GoError ''boom'')))
       example_world))) = [''Success'']"
proof -
  note run = severity_by_status [of DefaultZapLoggerConfig example_world example_world
      example_library "Logger ''access''", OF default_keeps]
  show ?thesis
    using run [of "respond 200 None"] run [of "respond 301 None"] run [of "respond 404 None"]
      run [of "respond 500 None"] run [of "respond 200 (Some (GoError ''boom''))"]
    by (simp add: handler_unfold DefaultSkipper_def respond_def example_world_def
        example_library_def spec_severity_def spec_base_message_def)
qed

text \<open>
  C4. On a request that is not skipped, the last field passed is \<open>request_id\<close>, resolved
  on the context as \<open>next\<close> (and the error hook, when \<open>next\<close> failed) left it: the inbound
  request's \<open>X-Request-Id\<close> when that is not the empty string, otherwise the response's
  \<open>X-Request-Id\<close>, which is the empty string when that header is absent or empty too.
\<close>

theorem request_id_first_non_empty:
  assumes "skipper_of config c = (False, c1)" and "next c1 = (err, c2)"
  shows "(let r = ZapLoggerWithConfig lib log config next c;
        w = (case err of None \<Rightarrow> c2 | Some e \<Rightarrow> Context_Error lib e c2)
    in \<exists>ent. entries_logged (calls r) = [ent]
     \<and> last (passed ent) = zap_String ''request_id''
          (if Header_Get (Header (Request w)) ''X-Request-Id'' \<noteq> []
           then Header_Get (Header (Request w)) ''X-Request-Id''
           else Header_Get (ResHeader (Response w)) ''X-Request-Id'')
     \<and> (Header (Request w) ''X-Request-Id'' = None
          \<and> ResHeader (Response w) ''X-Request-Id'' = None
          \<longrightarrow> last (passed ent) = zap_String ''request_id'' []))"
  using assms
  by (simp add: handler_unfold HeaderXRequestID_def Header_Get_def split: option.splits)

theorem request_id_first_non_empty_witness:
  "map (last \<circ> passed) (entries_logged (calls (ZapLoggerWithConfig example_library
       (Logger ''access'') DefaultZapLoggerConfig (respond 200 None) inbound_id_world)))
       = [zap_String ''request_id'' ''abc'']
   \<and> map (last \<circ> passed) (entries_logged (calls (ZapLoggerWithConfig example_library
       (Logger ''access'') DefaultZapLoggerConfig setting_id_next example_world)))
       = [zap_String ''request_id'' ''xyz'']
   \<and> map (last \<circ> passed) (entries_logged (calls (ZapLoggerWithConfig example_library
       (Logger ''access'') DefaultZapLoggerConfig setting_id_next inbound_id_world)))
       = [zap_String ''request_id'' ''abc'']
   \<and> map (last \<circ> passed) (entries_logged (calls (ZapLoggerWithConfig example_library
       (Logger ''access'') DefaultZapLoggerConfig (respond 200 None) example_world)))
       = [zap_String ''request_id'' '''']"
proof -
  have n1: "respond 200 None inbound_id_world = (None, snd (respond 200 None inbound_id_world))"
    by (simp add: respond_def)
  have n2: "setting_id_next example_world = (None, snd (setting_id_next example_world))"
    by (simp add: setting_id_next_def)
  have n3: "setting_id_next inbound_id_world = (None, snd (setting_id_next inbound_id_world))"
    by (simp add: setting_id_next_def)
  have n4: "respond 200 None example_world = (None, snd (respond 200 None example_world))"
    by (simp add: respond_def)
  show ?thesis
    using
      request_id_first_non_empty [of _ _ _ "respond 200 None" _ _ example_library
        "Logger ''access''", OF default_keeps n1]
      request_id_first_non_empty [of _ _ _ setting_id_next _ _ example_library
        "Logger ''access''", OF default_keeps n2]
      request_id_first_non_empty [of _ _ _ setting_id_next _ _ example_library
        "Logger ''access''", OF default_keeps n3]
      request_id_first_non_empty [of _ _ _ "respond 200 None" _ _ example_library
        "Logger ''access''", OF default_keeps n4]
    by (simp add: handler_unfold DefaultSkipper_def Header_Get_def HeaderXRequestID_def
        respond_def setting_id_next_def inbound_id_world_def example_world_def
        example_library_def)
qed

subsection \<open>Skipped requests\<close>

text \<open>
  C5. The first call of the decorated handler is the skipper, on every request. When the
  skipper answers true the handler does nothing but call \<open>next\<close>, once, and return what it
  returned: no clock is read, no entry is emitted, and \<open>c.Error\<close> is not called, even when
  \<open>next\<close> returned an error; the context is left as \<open>next\<close> left it.
\<close>

theorem skipped_is_pass_through:
  assumes "skipper_of config c = (skip, c1)" and "next c1 = (r, c2)"
  shows "hd (calls (ZapLoggerWithConfig lib log config next c)) = Call_Skipper
     \<and> (skip \<longrightarrow> ZapLoggerWithConfig lib log config next c =
           \<lparr>returned = Return r, final = c2, calls = [Call_Skipper, Call_next]\<rparr>)"
  using assms by (simp add: handler_unfold split: option.splits)

theorem skipped_is_pass_through_witness:
  "ZapLoggerWithConfig example_library (Logger ''access'')
       \<lparr>Skipper = Some always_skip, IncludeRequestLogMessage = True\<rparr>
       failing_next example_world
     = \<lparr>returned = Return (Some (GoError ''boom'')), final = example_world,
        calls = [Call_Skipper, Call_next]\<rparr>"
proof -
  have s: "skipper_of \<lparr>Skipper = Some always_skip, IncludeRequestLogMessage = True\<rparr>
              example_world = (True, example_world)"
    by (simp add: skipper_of_def always_skip_def)
  have n: "failing_next example_world = (Some (GoError ''boom''), example_world)"
    by (simp add: failing_next_def)
  show ?thesis
    using skipped_is_pass_through [of _ _ _ _ failing_next _ _ example_library
        "Logger ''access''", OF s n]
    by simp
qed

subsection \<open>Fields, error field and message\<close>

text \<open>
  C6. On a request that is not skipped, exactly one entry is emitted, and the fields
  passed are, in this order, \<open>remote_ip\<close>, \<open>latency\<close>, \<open>host\<close>, \<open>request\<close>, \<open>status\<close>,
  \<open>size\<close>, \<open>user_agent\<close> and last \<open>request_id\<close>, each read from the context as \<open>next\<close>
  (and the error hook, when \<open>next\<close> failed) left it; the \<open>request\<close> field is the method,
  one space, and the URI.
\<close>

theorem one_entry_fields_in_order:
  assumes "skipper_of config c = (False, c1)" and "next c1 = (err, c2)"
  shows "(let r = ZapLoggerWithConfig lib log config next c;
        w = (case err of None \<Rightarrow> c2 | Some e \<Rightarrow> Context_Error lib e c2)
    in \<exists>ent. entries_logged (calls r) = [ent]
     \<and> passed ent =
         [zap_String ''remote_ip'' (RealIP w),
          zap_String ''latency'' (Duration_String lib (clock w - clock c1)),
          zap_String ''host'' (Host (Request w)),
          zap_String ''request'' (Method (Request w) @ '' '' @ RequestURI (Request w)),
          zap_Int ''status'' (Status (Response w)),
          zap_Int64 ''size'' (Size (Response w)),
          zap_String ''user_agent'' (Header_Get (Header (Request w)) ''User-Agent''),
          zap_String ''request_id''
            (if Header_Get (Header (Request w)) ''X-Request-Id'' \<noteq> []
             then Header_Get (Header (Request w)) ''X-Request-Id''
             else Header_Get (ResHeader (Response w)) ''X-Request-Id'')]
     \<and> field_keys (passed ent) =
         [''remote_ip'', ''latency'', ''host'', ''request'', ''status'', ''size'',
          ''user_agent'', ''request_id''])"
  using assms
  by (simp add: handler_unfold UserAgent_def HeaderXRequestID_def split: option.splits)

theorem one_entry_fields_in_order_witness:
  "map passed (entries_logged (calls (ZapLoggerWithConfig example_library (Logger ''access'')
       DefaultZapLoggerConfig (respond 200 None) inbound_id_world)))
     = [[zap_String ''remote_ip'' ''192.0.2.1'',
         zap_String ''latency'' ''0s'',
         zap_String ''host'' ''example.com'',
         zap_String ''request'' ''GET /foo'',
         zap_Int ''status'' 200,
         zap_Int64 ''size'' 0,
         zap_String ''user_agent'' '''',
         zap_String ''request_id'' ''abc'']]
   \<and> map passed (entries_logged (calls (ZapLoggerWithConfig example_library
       (Logger ''access'') DefaultZapLoggerConfig (respond_slowly 404 None) post_world)))
     = [[zap_String ''remote_ip'' ''198.51.100.7'',
         zap_String ''latency'' ''2ms'',
         zap_String ''host'' ''api.example.com'',
         zap_String ''request'' ''POST /bar'',
         zap_Int ''status'' 404,
         zap_Int64 ''size'' 17,
         zap_String ''user_agent'' ''curl/8.0'',
         zap_String ''request_id'' '''']]
   \<and> map passed (entries_logged (calls (ZapLoggerWithConfig example_library
       (Logger ''access'') DefaultZapLoggerConfig failing_next post_world)))
     = [[zap_String ''remote_ip'' ''198.51.100.7'',
         zap_String ''latency'' ''0s'',
         zap_String ''host'' ''api.example.com'',
         zap_String ''request'' ''POST /bar'',
         zap_Int ''status'' 500,
         zap_Int64 ''size'' 0,
         zap_String ''user_agent'' ''curl/8.0'',
         zap_String ''request_id'' '''']]"
proof -
  have n1: "respond 200 None inbound_id_world = (None, snd (respond 200 None inbound_id_world))"
    by (simp add: respond_def)
  have n2: "respond_slowly 404 None post_world = (None, snd (respond_slowly 404 None post_world))"
    by (simp add: respond_slowly_def)
  have n3: "failing_next post_world = (Some (GoError ''boom''), post_world)"
    by (simp add: failing_next_def)
  show ?thesis
    using
      one_entry_fields_in_order [of _ _ _ "respond 200 None" _ _ example_library
        "Logger ''access''", OF default_keeps n1]
      one_entry_fields_in_order [of _ _ _ "respond_slowly 404 None" _ _ example_library
        "Logger ''access''", OF default_keeps n2]
      one_entry_fields_in_order [of _ _ _ failing_next _ _ example_library
        "Logger ''access''", OF default_keeps n3]
    by (simp add: handler_unfold DefaultSkipper_def respond_def respond_slowly_def
        failing_next_def inbound_id_world_def example_world_def post_world_def
        example_library_def UserAgent_def Header_Get_def HeaderXRequestID_def)
qed

text \<open>
  C7, as stated, fails in its nil case: a handler that answers 404 and returns nil gives
  an entry whose only attached field is the skip field of \<open>zap.Error(nil)\<close>; the entry
  carries no error, and no attached or passed field is keyed \<open>error\<close>.
\<close>

theorem nil_error_field_counterexample:
  "concat (map attached (entries_logged (calls (ZapLoggerWithConfig example_library
       (Logger ''access'') DefaultZapLoggerConfig (respond 404 None) example_world))))
     = [zap_Skip]
   \<and> error_fields (concat (map attached (entries_logged (calls (ZapLoggerWithConfig
       example_library (Logger ''access'') DefaultZapLoggerConfig (respond 404 None)
       example_world))))) = []
   \<and> ''error'' \<notin> set (field_keys
       (concat (map attached (entries_logged (calls (ZapLoggerWithConfig example_library
          (Logger ''access'') DefaultZapLoggerConfig (respond 404 None) example_world))))
        @ concat (map passed (entries_logged (calls (ZapLoggerWithConfig example_library
          (Logger ''access'') DefaultZapLoggerConfig (respond 404 None) example_world))))))"
  by (simp add: handler_unfold DefaultSkipper_def respond_def example_world_def
      zap_Error_def zap_NamedError_def)

text \<open>
  C7, amended. On a request that is not skipped, the entry is emitted on a logger with
  \<open>zap.Error(err)\<close> attached, \<open>err\<close> being what \<open>next\<close> returned, exactly when the response
  status, as \<open>next\<close> and the error hook left it, is at least 400. When \<open>err\<close> is non-nil
  that is one field keyed \<open>error\<close> carrying \<open>err\<close>; when \<open>err\<close> is nil it is the skip field,
  and the entry carries no error field. Below 400 nothing is attached, whatever \<open>next\<close>
  returned, and the fields passed never include an error field.
\<close>

theorem error_field_by_status:
  assumes "skipper_of config c = (False, c1)" and "next c1 = (err, c2)"
  shows "(let r = ZapLoggerWithConfig lib log config next c;
        w = (case err of None \<Rightarrow> c2 | Some e \<Rightarrow> Context_Error lib e c2)
    in \<exists>ent. entries_logged (calls r) = [ent]
     \<and> attached ent = (if Status (Response w) \<ge> 400 then [zap_Error err] else [])
     \<and> error_fields (attached ent)
         = (if Status (Response w) \<ge> 400
            then (case err of None \<Rightarrow> [] | Some e \<Rightarrow> [e]) else [])
     \<and> field_keys (attached ent)
         = (if Status (Response w) \<ge> 400
            then (case err of None \<Rightarrow> [] | Some e \<Rightarrow> [''error'']) else [])
     \<and> error_fields (passed ent) = []
     \<and> ''error'' \<notin> set (field_keys (passed ent)))"
  using assms
  by (simp add: handler_unfold zap_Error_def zap_NamedError_def split: option.splits)

theorem error_field_by_status_witness:
  "map attached (entries_logged (calls (ZapLoggerWithConfig example_library
       (Logger ''access'') DefaultZapLoggerConfig (respond 404 None) example_world)))
     = [[zap_Skip]]
   \<and> map attached (entries_logged (calls (ZapLoggerWithConfig example_library
       (Logger ''access'') DefaultZapLoggerConfig (respond 500 (Some (GoError ''boom'')))
       example_world))) = [[ErrorField ''error'' (GoError ''boom'')]]
   \<and> map attached (entries_logged (calls (ZapLoggerWithConfig example_library
       (Logger ''access'') DefaultZapLoggerConfig failing_next post_world)))
     = [[ErrorField ''error'' (GoError ''boom'')]]
   \<and> map attached (entries_logged (calls (ZapLoggerWithConfig example_library
       (Logger ''access'') DefaultZapLoggerConfig (respond 200 (Some (GoError ''boom'')))
       example_world))) = [[]]"
proof -
  have n: "\<And>k err. respond k err example_world = (err, snd (respond k err example_world))"
    by (simp add: respond_def)
  have n3: "failing_next post_world = (Some (GoError ''boom''), post_world)"
    by (simp add: failing_next_def)
  show ?thesis
    using
      error_field_by_status [of _ _ _ "respond 404 None" _ _ example_library
        "Logger ''access''", OF default_keeps n]
      error_field_by_status [of _ _ _ "respond 500 (Some (GoError ''boom''))" _ _
        example_library "Logger ''access''", OF default_keeps n]
      error_field_by_status [of _ _ _ failing_next _ _ example_library
        "Logger ''access''", OF default_keeps n3]
      error_field_by_status [of _ _ _ "respond 200 (Some (GoError ''boom''))" _ _
        example_library "Logger ''access''", OF default_keeps n]
    by (simp add: handler_unfold DefaultSkipper_def respond_def failing_next_def
        example_world_def post_world_def example_library_def zap_Error_def
        zap_NamedError_def)
qed

text \<open>
  C8. On a request that is not skipped, the message of the entry is the base message of
  the response status followed by a colon, a space, the method, a space and the URI when
  \<open>IncludeRequestLogMessage\<close> is set, and the base message alone when it is not; status,
  method and URI are those of the context as \<open>next\<close> (and the error hook, when \<open>next\<close>
  failed) left it.
\<close>

theorem message_with_request:
  assumes "skipper_of config c = (False, c1)" and "next c1 = (err, c2)"
  shows "(let r = ZapLoggerWithConfig lib log config next c;
        w = (case err of None \<Rightarrow> c2 | Some e \<Rightarrow> Context_Error lib e c2)
    in \<exists>ent. entries_logged (calls r) = [ent]
     \<and> message ent =
         (if IncludeRequestLogMessage config
          then spec_base_message (Status (Response w)) @ '': ''
               @ Method (Request w) @ '' '' @ RequestURI (Request w)
          else spec_base_message (Status (Response w))))"
  using assms
  by (simp add: handler_unfold spec_base_message_def split: option.splits)

theorem message_with_request_witness:
  "map message (entries_logged (calls (ZapLoggerWithConfig example_library
       (Logger ''access'') \<lparr>Skipper = Some DefaultSkipper, IncludeRequestLogMessage = True\<rparr>
       (respond 200 None) example_world))) = [''Success: GET /foo'']
   \<and> map message (entries_logged (calls (ZapLoggerWithConfig example_library
       (Logger ''access'') \<lparr>Skipper = Some DefaultSkipper, IncludeRequestLogMessage = False\<rparr>
       (respond 200 None) example_world))) = [''Success'']
   \<and> map message (entries_logged (calls (ZapLoggerWithConfig example_library
       (Logger ''access'') \<lparr>Skipper = Some DefaultSkipper, IncludeRequestLogMessage = True\<rparr>
       (respond_slowly 404 None) post_world))) = [''Client error: POST /bar'']
   \<and> map message (entries_logged (calls (ZapLoggerWithConfig example_library
       (Logger ''access'') \<lparr>Skipper = Some DefaultSkipper, IncludeRequestLogMessage = False\<rparr>
       (respond_slowly 404 None) post_world))) = [''Client error'']
   \<and> map message (entries_logged (calls (ZapLoggerWithConfig example_library
       (Logger ''access'') \<lparr>Skipper = Some DefaultSkipper, IncludeRequestLogMessage = True\<rparr>
       failing_next post_world))) = [''Server error: POST /bar'']"
proof -
  have s: "\<And>b w. skipper_of \<lparr>Skipper = Some DefaultSkipper, IncludeRequestLogMessage = b\<rparr>
      w = (False, w)"
    by (simp add: skipper_of_def DefaultSkipper_def)
  have n1: "respond 200 None example_world = (None, snd (respond 200 None example_world))"
    by (simp add: respond_def)
  have n2: "respond_slowly 404 None post_world = (None, snd (respond_slowly 404 None post_world))"
    by (simp add: respond_slowly_def)
  have n3: "failing_next post_world = (Some (GoError ''boom''), post_world)"
    by (simp add: failing_next_def)
  show ?thesis
    using
      message_with_request [of _ _ _ "respond 200 None" _ _ example_library
        "Logger ''access''", OF s [of True] n1]
      message_with_request [of _ _ _ "respond 200 None" _ _ example_library
        "Logger ''access''", OF s [of False] n1]
      message_with_request [of _ _ _ "respond_slowly 404 None" _ _ example_library
        "Logger ''access''", OF s [of True] n2]
      message_with_request [of _ _ _ "respond_slowly 404 None" _ _ example_library
        "Logger ''access''", OF s [of False] n2]
      message_with_request [of _ _ _ failing_next _ _ example_library
        "Logger ''access''", OF s [of True] n3]
    by (simp add: handler_unfold DefaultSkipper_def respond_def respond_slowly_def
        failing_next_def example_world_def post_world_def example_library_def
        spec_base_message_def)
qed

subsection \<open>Defaults\<close>

text \<open>
  C9. The default configuration's skipper answers false on every context and leaves it as
  it is, its message flag is off, and \<open>ZapLogger log\<close> is \<open>ZapLoggerWithConfig\<close> applied to
  \<open>log\<close> and the default configuration, for every logger.
\<close>

theorem ZapLogger_is_default_config:
  "Skipper DefaultZapLoggerConfig = Some DefaultSkipper
   \<and> DefaultSkipper c = (False, c)
   \<and> IncludeRequestLogMessage DefaultZapLoggerConfig = False
   \<and> ZapLogger lib log = ZapLoggerWithConfig lib log DefaultZapLoggerConfig"
  by (simp add: DefaultZapLoggerConfig_def DefaultSkipper_def ZapLogger_def)

text \<open>
  C10. A configuration with a nil skipper gives, once applied to \<open>next\<close>, the same handler
  as the same configuration with \<open>DefaultSkipper\<close>: the handler never calls a nil function
  (it does not panic), and no request is skipped: it returns nil after calling \<open>next\<close> once
  and emitting one entry.
\<close>

theorem nil_skipper_defaulted:
  assumes "Skipper config = None"
  shows "ZapLoggerWithConfig lib log config next
           = ZapLoggerWithConfig lib log (config\<lparr>Skipper := Some DefaultSkipper\<rparr>) next
     \<and> returned (ZapLoggerWithConfig lib log config next c) \<noteq> Panic
     \<and> returned (ZapLoggerWithConfig lib log config next c) = Return None
     \<and> count_list (calls (ZapLoggerWithConfig lib log config next c)) Call_next = 1
     \<and> length (entries_logged (calls (ZapLoggerWithConfig lib log config next c))) = 1"
  using assms
  by (simp add: ZapLoggerWithConfig_def DefaultZapLoggerConfig_def DefaultSkipper_def Let_def
      split: option.splits prod.splits)

theorem nil_skipper_defaulted_witness:
  "returned (ZapLoggerWithConfig example_library (Logger ''access'')
       \<lparr>Skipper = None, IncludeRequestLogMessage = True\<rparr> failing_next example_world)
     = Return None
   \<and> map message (entries_logged (calls (ZapLoggerWithConfig example_library
       (Logger ''access'') \<lparr>Skipper = None, IncludeRequestLogMessage = True\<rparr>
       failing_next example_world))) = [''Server error: GET /foo'']"
proof -
  have s: "Skipper \<lparr>Skipper = None, IncludeRequestLogMessage = True\<rparr> = None"
    by simp
  show ?thesis
    using nil_skipper_defaulted [of "\<lparr>Skipper = None, IncludeRequestLogMessage = True\<rparr>"
        example_library "Logger ''access''" failing_next example_world, OF s]
    by (simp add: handler_unfold DefaultSkipper_def failing_next_def example_world_def
        example_library_def)
qed

end
